theory Spec2Isabelle
  imports Main "HOL-Library.AList"
begin

section \<open>Strings and the Go library functions the handlers call\<close>

text \<open>
  Go strings are byte sequences; a path, a header value and a body are modelled
  as \<open>string\<close> (a list of 8-bit characters).
\<close>

type_synonym bytes = string

text \<open>\<^verbatim>\<open>strings.HasPrefix(s, prefix)\<close>.\<close>

definition strings_HasPrefix :: "string \<Rightarrow> string \<Rightarrow> bool" where
  "strings_HasPrefix s pre = (take (length pre) s = pre)"

text \<open>\<^verbatim>\<open>strings.HasSuffix(s, suffix)\<close>.\<close>

definition strings_HasSuffix :: "string \<Rightarrow> string \<Rightarrow> bool" where
  "strings_HasSuffix s suf = strings_HasPrefix (rev s) (rev suf)"

text \<open>
  \<^verbatim>\<open>strings.Contains(s, substr)\<close>: \<open>substr\<close> occurs in \<open>s\<close> as a contiguous
  block; the empty string occurs in every string.
\<close>

fun strings_Contains :: "string \<Rightarrow> string \<Rightarrow> bool" where
  "strings_Contains [] sub = (sub = [])"
| "strings_Contains (c # s) sub =
     (strings_HasPrefix (c # s) sub \<or> strings_Contains s sub)"

text \<open>
  \<^verbatim>\<open>filepath.Ext(path)\<close>: the suffix beginning at the final dot of the final
  slash-separated element, empty when that element has no dot. The source scans from
  the end of the string; \<open>ext_scan\<close> walks the reversed path and rebuilds the suffix.
\<close>

fun ext_scan :: "string \<Rightarrow> string \<Rightarrow> string" where
  "ext_scan [] acc = []"
| "ext_scan (c # cs) acc =
     (if c = CHR ''/'' then []
      else if c = CHR ''.'' then c # acc
      else ext_scan cs (c # acc))"

definition filepath_Ext :: "string \<Rightarrow> string" where
  "filepath_Ext p = ext_scan (rev p) []"

text \<open>\<^verbatim>\<open>strings.ToLower\<close> on the ASCII letters.\<close>

definition lower_char :: "char \<Rightarrow> char" where
  "lower_char c =
     (let n = (of_char c :: nat)
      in if 65 \<le> n \<and> n \<le> 90 then char_of (n + 32) else c)"

definition strings_ToLower :: "string \<Rightarrow> string" where
  "strings_ToLower s = map lower_char s"

text \<open>\<^verbatim>\<open>fmt.Sprintf("%d", n)\<close>: the decimal numeral of an integer.\<close>

fun decimal_nat :: "nat \<Rightarrow> string" where
  "decimal_nat n =
     (if n < 10 then [char_of (48 + n)]
      else decimal_nat (n div 10) @ [char_of (48 + n mod 10)])"

definition sprintf_d :: "int \<Rightarrow> string" where
  "sprintf_d i = (if i < 0 then CHR ''-'' # decimal_nat (nat (- i)) else decimal_nat (nat i))"

section \<open>The path classifier\<close>

text \<open>
  The loop \<^verbatim>\<open>for _, pattern := range patterns { if strings.Contains(path, pattern)
  { return true } }\<close> of both classifier functions; it falls through with \<open>False\<close>.
\<close>

fun contains_any :: "string \<Rightarrow> string list \<Rightarrow> bool" where
  "contains_any p [] = False"
| "contains_any p (pat # pats) =
     (if strings_Contains p pat then True else contains_any p pats)"

definition frequentlyChangingPatterns :: "string list" where
  "frequentlyChangingPatterns =
     [''Release'', ''Release.gpg'', ''InRelease'', ''Packages'', ''Packages.gz'',
      ''Packages.xz'', ''Sources'', ''Sources.gz'', ''Sources.xz'', ''Contents-'',
      ''Index'']"

text \<open>\<^verbatim>\<open>shouldUseIfModifiedSince\<close> (handlers.go, lines 440-474).\<close>

definition shouldUseIfModifiedSince :: "string \<Rightarrow> bool" where
  "shouldUseIfModifiedSince p =
     (if strings_Contains p ''/dists/'' then True
      else if strings_Contains p ''/pool/'' then False
      else if contains_any p frequentlyChangingPatterns then True
      else False)"

definition criticalPatterns :: "string list" where
  "criticalPatterns = [''Release'', ''Release.gpg'', ''InRelease'']"

definition changingPatterns :: "string list" where
  "changingPatterns = [''Packages'', ''Sources'', ''Contents'']"

text \<open>\<^verbatim>\<open>shouldValidateWithOrigin\<close> (handlers.go, lines 479-516).\<close>

definition shouldValidateWithOrigin :: "string \<Rightarrow> bool" where
  "shouldValidateWithOrigin p =
     (if contains_any p criticalPatterns then True
      else if strings_Contains p ''/dists/'' \<and> contains_any p changingPatterns then True
      else if strings_Contains p ''/pool/'' then False
      else False)"

text \<open>\<^verbatim>\<open>getContentType\<close> (handlers.go, lines 580-606).\<close>

definition getContentType :: "string \<Rightarrow> string" where
  "getContentType p =
     (let ext = strings_ToLower (filepath_Ext p)
      in if ext = ''.gz'' \<or> ext = ''.gzip'' then ''application/gzip''
         else if ext = ''.bz2'' then ''application/x-bzip2''
         else if ext = ''.xz'' then ''application/x-xz''
         else if ext = ''.deb'' then ''application/vnd.debian.binary-package''
         else if ext = ''.asc'' then ''application/pgp-signature''
         else if ext = ''.json'' then ''application/json''
         else if ext = ''.txt'' then ''text/plain''
         else if ext = ''.html'' \<or> ext = ''.htm'' then ''text/html''
         else if ext = ''.xml'' then ''application/xml''
         else if ext = ''.gpg'' then ''application/pgp-encrypted''
         else ''application/octet-stream'')"

section \<open>HTTP headers, requests and responses\<close>

text \<open>
  \<^verbatim>\<open>http.Header\<close> is a Go map from a header name to the list of its values. The
  handlers iterate over it, so it is an association list here; a Go map has each key
  once. A nil header map reads like the empty one (\<^verbatim>\<open>Get\<close> gives the empty
  string, \<^verbatim>\<open>range\<close> runs no iteration), so both are \<open>[]\<close>. Every header name
  the source writes is already in canonical form, so canonicalisation is the identity.
\<close>

type_synonym header = "(string \<times> string list) list"

definition header_Values :: "header \<Rightarrow> string \<Rightarrow> string list" where
  "header_Values h k = (case map_of h k of None \<Rightarrow> [] | Some vs \<Rightarrow> vs)"

text \<open>\<^verbatim>\<open>h.Get(key)\<close>: the first value of the key, or the empty string.\<close>

definition header_Get :: "header \<Rightarrow> string \<Rightarrow> string" where
  "header_Get h k = (case header_Values h k of [] \<Rightarrow> [] | v # vs \<Rightarrow> v)"

text \<open>\<^verbatim>\<open>h.Set(key, value)\<close> replaces the values of the key by the single value.\<close>

definition header_Set :: "header \<Rightarrow> string \<Rightarrow> string \<Rightarrow> header" where
  "header_Set h k v = AList.update k [v] h"

text \<open>\<^verbatim>\<open>h.Add(key, value)\<close> appends the value to the values of the key.\<close>

definition header_Add :: "header \<Rightarrow> string \<Rightarrow> string \<Rightarrow> header" where
  "header_Add h k v = AList.update k (header_Values h k @ [v]) h"

text \<open>
  The nested loop \<^verbatim>\<open>for key, values := range src { for _, value := range values
  { w.Header().Add(key, value) } }\<close> (lines 187-191 and 417-421).
\<close>

fun add_values :: "string \<Rightarrow> string list \<Rightarrow> header \<Rightarrow> header" where
  "add_values k [] dst = dst"
| "add_values k (v # vs) dst = add_values k vs (header_Add dst k v)"

fun copy_header :: "header \<Rightarrow> header \<Rightarrow> header" where
  "copy_header [] dst = dst"
| "copy_header ((k, vs) # src) dst = copy_header src (add_values k vs dst)"

text \<open>The inbound request: \<^verbatim>\<open>r.Method\<close>, \<^verbatim>\<open>r.URL.Path\<close>, \<^verbatim>\<open>r.URL.RawQuery\<close>, \<^verbatim>\<open>r.Header\<close>.\<close>

record request =
  Method :: string
  URL_Path :: string
  URL_RawQuery :: string
  ReqHeader :: header

text \<open>
  \<^verbatim>\<open>http.ResponseWriter\<close>, following the contract of the interface: \<open>wheader\<close> is
  the map \<^verbatim>\<open>w.Header()\<close>; the first \<^verbatim>\<open>WriteHeader\<close> fixes the status and the headers
  that are sent (later changes of the map and later calls of \<^verbatim>\<open>WriteHeader\<close> have
  no effect); \<^verbatim>\<open>Write\<close> calls \<^verbatim>\<open>WriteHeader(200)\<close> when no status was written yet.
  \<open>wbody\<close> collects the bytes the handler passes to \<^verbatim>\<open>Write\<close>.
\<close>

record writer =
  wheader :: header
  wrote :: "(nat \<times> header) option"
  wbody :: bytes

definition new_writer :: writer where
  "new_writer = \<lparr>wheader = [], wrote = None, wbody = []\<rparr>"

definition WriteHeader :: "nat \<Rightarrow> writer \<Rightarrow> writer" where
  "WriteHeader code w =
     (if wrote w = None then w\<lparr>wrote := Some (code, wheader w)\<rparr> else w)"

definition Write :: "bytes \<Rightarrow> writer \<Rightarrow> writer" where
  "Write b w = (let w' = WriteHeader 200 w in w'\<lparr>wbody := wbody w' @ b\<rparr>)"

definition w_Set :: "string \<Rightarrow> string \<Rightarrow> writer \<Rightarrow> writer" where
  "w_Set k v w = w\<lparr>wheader := header_Set (wheader w) k v\<rparr>"

text \<open>
  \<^verbatim>\<open>io.Copy(w, src)\<close> from a stream that delivers the bytes \<open>b\<close>: nothing is
  written for an empty stream. Writes to the client are taken to succeed; the source
  only logs their failure.
\<close>

definition io_Copy :: "bytes \<Rightarrow> writer \<Rightarrow> writer" where
  "io_Copy b w = (if b = [] then w else Write b w)"

text \<open>
  \<^verbatim>\<open>http.Error(w, msg, code)\<close>: a plain-text reply with the message and a newline.
  Recent Go versions first delete \<^verbatim>\<open>Content-Length\<close> and a few other headers from the
  map; the handlers call it only before they have set any header, where that changes
  nothing.
\<close>

definition http_Error :: "string \<Rightarrow> nat \<Rightarrow> writer \<Rightarrow> writer" where
  "http_Error msg code w =
     Write (msg @ [CHR 0x0A])
       (WriteHeader code
         (w_Set ''X-Content-Type-Options'' ''nosniff''
           (w_Set ''Content-Type'' ''text/plain; charset=utf-8'' w)))"

text \<open>The headers that go out: those fixed by \<^verbatim>\<open>WriteHeader\<close>, else the map at return.\<close>

definition sent_header :: "writer \<Rightarrow> header" where
  "sent_header w = (case wrote w of Some (c, h) \<Rightarrow> h | None \<Rightarrow> wheader w)"

text \<open>The status fixed by \<^verbatim>\<open>WriteHeader\<close> so far, if any.\<close>

definition written_status :: "writer \<Rightarrow> nat option" where
  "written_status w = map_option fst (wrote w)"

text \<open>A request to the origin and its response (\<^verbatim>\<open>*http.Request\<close>, \<^verbatim>\<open>*http.Response\<close>).
  \<open>Body = None\<close> is a body whose \<^verbatim>\<open>io.ReadAll\<close> fails.\<close>

record origin_request =
  o_method :: string
  o_url :: string
  o_header :: header

record origin_response =
  StatusCode :: nat
  RespHeader :: header
  ContentLength :: int
  Body :: "bytes option"

section \<open>The single-flight registry\<close>

text \<open>
  \<^verbatim>\<open>requestLock\<close>: the map \<^verbatim>\<open>inProgress\<close> from a path to its channel. A channel is
  a number; \<open>closed\<close> lists the channels that were closed, \<open>fresh\<close> is the next
  channel \<^verbatim>\<open>make\<close> returns.
\<close>

record registry =
  inProgress :: "string \<rightharpoonup> nat"
  closed :: "nat list"
  fresh :: nat

definition empty_registry :: registry where
  "empty_registry = \<lparr>inProgress = Map.empty, closed = [], fresh = 0\<rparr>"

text \<open>
  \<^verbatim>\<open>acquireLock\<close> (lines 38-61). The source looks the path up under the read lock
  and, when it is absent, again under the write lock before inserting; the outcome is
  that of one atomic look-up-and-insert, which is what one step of the model does.
\<close>

definition acquireLock :: "string \<Rightarrow> registry \<Rightarrow> bool \<times> nat \<times> registry" where
  "acquireLock p reg =
     (case inProgress reg p of
        Some ch \<Rightarrow> (False, ch, reg)
      | None \<Rightarrow>
          (True, fresh reg,
           reg\<lparr>inProgress := (inProgress reg)(p \<mapsto> fresh reg), fresh := Suc (fresh reg)\<rparr>))"

text \<open>\<^verbatim>\<open>releaseLock\<close> (lines 64-72).\<close>

definition releaseLock :: "string \<Rightarrow> registry \<Rightarrow> registry" where
  "releaseLock p reg =
     (case inProgress reg p of
        Some ch \<Rightarrow> reg\<lparr>closed := ch # closed reg, inProgress := (inProgress reg)(p := None)\<rparr>
      | None \<Rightarrow> reg)"

section \<open>The collaborators of the handlers\<close>

text \<open>
  The blob cache, the header cache, the HTTP client and the clock are outside this
  repository's source. A handler run sees them through the results of its calls, which
  \<open>env\<close> supplies, and the calls it makes are recorded in order as events.
  Times are integers (any fixed unit); \<open>time_Parse\<close> and \<open>time_Format\<close> stand for
  \<^verbatim>\<open>time.Parse(http.TimeFormat, s)\<close> and \<^verbatim>\<open>t.Format(http.TimeFormat)\<close>.
  \<^item> \<open>cache_Get\<close>: \<^verbatim>\<open>config.Cache.Get\<close> at the start of a handler, \<open>None\<close> for an
    error; a hit gives the content, the length the cache reports and the stored time.
  \<^item> \<open>cache_Get_after_wait\<close>: the same call after waiting for another request.
  \<^item> \<open>header_GetHeaders\<close>: \<^verbatim>\<open>config.HeaderCache.GetHeaders\<close>, the headers and whether
    the error is non-nil.
  \<^item> \<open>cache_Put_ok\<close>, \<open>header_PutHeaders_ok\<close>: whether the two stores accept a write.
  \<^item> \<open>client_Do\<close>: \<^verbatim>\<open>client.Do\<close>, \<open>None\<close> for a transport error.
  \<^item> \<open>NewRequest_ok\<close>: whether \<^verbatim>\<open>http.NewRequest\<close> accepts the URL.
  \<^item> \<open>registry_after_wait\<close>: the registry as other requests left it when a wait on a
    channel ends.
\<close>

record env =
  OriginServer :: string
  LogRequests :: bool
  cache_Get :: "string \<Rightarrow> (bytes \<times> int \<times> int) option"
  cache_Get_after_wait :: "string \<Rightarrow> (bytes \<times> int \<times> int) option"
  header_GetHeaders :: "string \<Rightarrow> header \<times> bool"
  cache_Put_ok :: bool
  header_PutHeaders_ok :: bool
  client_Do :: "origin_request \<Rightarrow> origin_response option"
  NewRequest_ok :: "string \<Rightarrow> bool"
  time_Parse :: "string \<Rightarrow> int option"
  time_Format :: "int \<Rightarrow> string"
  time_Now :: int
  registry_after_wait :: registry

datatype event =
    CacheGet string
  | GetHeaders string
  | CachePut string bytes int int
  | PutHeaders string header
  | OriginDo origin_request
  | Wait nat
  | Log string

text \<open>What a handler run has done so far: the response, the calls, the registry.\<close>

record state =
  rw :: writer
  trace :: "event list"
  locks :: registry

definition emit :: "event \<Rightarrow> state \<Rightarrow> state" where
  "emit ev st = st\<lparr>trace := trace st @ [ev]\<rparr>"

definition logf :: "string \<Rightarrow> state \<Rightarrow> state" where
  "logf msg st = emit (Log msg) st"

definition on_writer :: "(writer \<Rightarrow> writer) \<Rightarrow> state \<Rightarrow> state" where
  "on_writer f st = st\<lparr>rw := f (rw st)\<rparr>"

text \<open>
  The receive \<^verbatim>\<open><-ch\<close>: the request waits until the holder of the lock closes the
  channel, and then sees the registry as the other requests left it.
\<close>

definition wait_chan :: "env \<Rightarrow> nat \<Rightarrow> state \<Rightarrow> state" where
  "wait_chan e ch st = (emit (Wait ch) st)\<lparr>locks := registry_after_wait e\<rparr>"

text \<open>A handler returns, or panics on a nil pointer dereference.\<close>

datatype 'a outcome = Returned 'a | Panicked

section \<open>The handlers\<close>

text \<open>\<^verbatim>\<open>validateRequest\<close> (lines 77-91).\<close>

definition validateRequest :: "request \<Rightarrow> writer \<Rightarrow> bool \<times> writer" where
  "validateRequest r w =
     (if Method r \<noteq> ''GET'' \<and> Method r \<noteq> ''HEAD''
      then (False, http_Error ''Method not allowed'' 405 w)
      else if URL_RawQuery r \<noteq> []
      then (False, http_Error ''Forbidden'' 403 w)
      else (True, w))"

text \<open>
  The client's conditional check of \<^verbatim>\<open>handleCacheHit\<close> (lines 109-132): whether the
  handler answers 304 from the cached headers and the stored time.
\<close>

definition client_not_modified :: "env \<Rightarrow> request \<Rightarrow> header \<Rightarrow> int \<Rightarrow> bool \<Rightarrow> bool" where
  "client_not_modified e r cachedHeaders lastModified useIfModifiedSince =
     (let ifModifiedSince = header_Get (ReqHeader r) ''If-Modified-Since''
      in if useIfModifiedSince \<and> ifModifiedSince \<noteq> [] then
           (case time_Parse e ifModifiedSince of
              None \<Rightarrow> False
            | Some ifModifiedSinceTime \<Rightarrow>
                let lastModifiedStr = header_Get cachedHeaders ''Last-Modified'';
                    lastModifiedTime =
                      (if lastModifiedStr \<noteq> [] then
                         (case time_Parse e lastModifiedStr of
                            Some t \<Rightarrow> t
                          | None \<Rightarrow> lastModified)
                       else lastModified)
                in \<not> (lastModifiedTime > ifModifiedSinceTime))
         else False)"

text \<open>
  The time stored with a fetched body (lines 246-252 and 394-399): the parsed
  \<^verbatim>\<open>Last-Modified\<close> of the origin's response, else \<^verbatim>\<open>time.Now()\<close>.
\<close>

definition fetched_last_modified :: "env \<Rightarrow> header \<Rightarrow> int" where
  "fetched_last_modified e h =
     (let lastModifiedHeader = header_Get h ''Last-Modified''
      in if lastModifiedHeader \<noteq> [] then
           (case time_Parse e lastModifiedHeader of
              Some parsedTime \<Rightarrow> parsedTime
            | None \<Rightarrow> time_Now e)
         else time_Now e)"

text \<open>
  \<^verbatim>\<open>fetchAndUpdateCache\<close> (lines 215-270). The returned stream is \<open>None\<close> where the
  source returns \<^verbatim>\<open>nil\<close>.
\<close>

definition fetchAndUpdateCache ::
  "env \<Rightarrow> string \<Rightarrow> string \<Rightarrow> state \<Rightarrow> bytes option \<times> int \<times> header \<times> state" where
  "fetchAndUpdateCache e path originURL st =
     (if \<not> NewRequest_ok e originURL
      then (None, 0, [], logf ''Error creating GET request'' st)
      else
        let getReq = \<lparr>o_method = ''GET'', o_url = originURL,
                      o_header = header_Set [] ''User-Agent'' ''Go-APT-Cache/1.0''\<rparr>;
            st1 = emit (OriginDo getReq) st
        in case client_Do e getReq of
             None \<Rightarrow> (None, 0, [], logf ''Error fetching from origin'' st1)
           | Some getResp \<Rightarrow>
               (case Body getResp of
                  None \<Rightarrow> (None, 0, [], logf ''Error reading response'' st1)
                | Some bodyBytes \<Rightarrow>
                    let contentLength = ContentLength getResp;
                        actualSize = int (length bodyBytes)
                    in if contentLength > 0 \<and> contentLength \<noteq> actualSize
                       then (Some bodyBytes, actualSize, RespHeader getResp,
                             logf ''File size validation failed'' st1)
                       else
                         let lastModifiedTime = fetched_last_modified e (RespHeader getResp);
                             st2 = emit (CachePut path bodyBytes (int (length bodyBytes))
                                           lastModifiedTime) st1;
                             st3 = (if \<not> cache_Put_ok e
                                    then logf ''Error updating cache'' st2
                                    else logf ''Successfully updated cache'' st2);
                             st4 = emit (PutHeaders path (RespHeader getResp)) st3;
                             st5 = (if \<not> header_PutHeaders_ok e
                                    then logf ''Error updating headers'' st4
                                    else st4)
                         in (Some bodyBytes, int (length bodyBytes), RespHeader getResp, st5)))"

text \<open>
  The HEAD request of the revalidation (lines 137-149): \<^verbatim>\<open>If-Modified-Since\<close> is the
  cached \<^verbatim>\<open>Last-Modified\<close> when that is not empty, else the stored time formatted.
\<close>

definition revalidation_request :: "env \<Rightarrow> request \<Rightarrow> header \<Rightarrow> int \<Rightarrow> origin_request" where
  "revalidation_request e r cachedHeaders lastModified =
     (let originURL = OriginServer e @ URL_Path r;
          lastModifiedStr = header_Get cachedHeaders ''Last-Modified'';
          h1 = (if lastModifiedStr \<noteq> []
                then header_Set [] ''If-Modified-Since'' lastModifiedStr
                else header_Set [] ''If-Modified-Since'' (time_Format e lastModified));
          h2 = header_Set h1 ''User-Agent'' ''Go-APT-Cache/1.0''
      in \<lparr>o_method = ''HEAD'', o_url = originURL, o_header = h2\<rparr>)"

text \<open>
  The revalidation of \<^verbatim>\<open>handleCacheHit\<close> (lines 134-184). It yields the content, the
  length and the headers to serve, and whether a \<^verbatim>\<open>releaseLock\<close> was deferred.
\<close>

definition revalidate ::
  "env \<Rightarrow> request \<Rightarrow> bytes \<Rightarrow> int \<Rightarrow> header \<Rightarrow> int \<Rightarrow> bool \<Rightarrow> state
     \<Rightarrow> bytes option \<times> int \<times> header \<times> bool \<times> state" where
  "revalidate e r content contentLength cachedHeaders lastModified useIfModifiedSince st =
     (if useIfModifiedSince \<and> shouldValidateWithOrigin (URL_Path r) then
        let originURL = OriginServer e @ URL_Path r
        in if NewRequest_ok e originURL then
             let req = revalidation_request e r cachedHeaders lastModified;
                 st1 = emit (OriginDo req) st
             in case client_Do e req of
                  Some resp \<Rightarrow>
                    if StatusCode resp = 304 then
                      (Some content, contentLength, cachedHeaders, False,
                       if LogRequests e
                       then logf ''Upstream confirms cache is still valid'' st1 else st1)
                    else if StatusCode resp = 200 then
                      let st2 = logf ''Upstream has newer version'' st1;
                          (acquired, ch, reg) = acquireLock (URL_Path r) (locks st2);
                          st3 = st2\<lparr>locks := reg\<rparr>;
                          st4 = (if acquired then st3 else wait_chan e ch st3);
                          (content', contentLength', cachedHeaders', st5) =
                             fetchAndUpdateCache e (URL_Path r) originURL st4
                      in (content', contentLength', cachedHeaders', acquired, st5)
                    else
                      (Some content, contentLength, cachedHeaders, False,
                       logf ''Unexpected status from upstream'' st1)
                | None \<Rightarrow>
                    (Some content, contentLength, cachedHeaders, False,
                     logf ''Error checking with upstream'' st1)
           else
             (Some content, contentLength, cachedHeaders, False,
              logf ''Error creating HEAD request'' st)
      else (Some content, contentLength, cachedHeaders, False, st))"

text \<open>\<^verbatim>\<open>setBasicHeaders\<close> (lines 273-302).\<close>

definition setBasicHeaders :: "env \<Rightarrow> request \<Rightarrow> header \<Rightarrow> int \<Rightarrow> bool \<Rightarrow> writer \<Rightarrow> writer" where
  "setBasicHeaders e r cachedHeaders lastModified useIfModifiedSince w =
     (let w1 = (if strings_HasSuffix (URL_Path r) ''/''
                then w_Set ''Content-Type'' ''text/html'' w
                else
                  let contentType = header_Get cachedHeaders ''Content-Type'';
                      contentType' = (if contentType = [] then getContentType (URL_Path r)
                                      else contentType)
                  in w_Set ''Content-Type'' contentType' w);
          w2 = w_Set ''Last-Modified'' (time_Format e lastModified) w1
      in if useIfModifiedSince then
           let ifModifiedSince = header_Get (ReqHeader r) ''If-Modified-Since''
           in if ifModifiedSince \<noteq> [] then
                (case time_Parse e ifModifiedSince of
                   Some ifModifiedSinceTime \<Rightarrow>
                     if \<not> (lastModified > ifModifiedSinceTime)
                     then WriteHeader 304 w2 else w2
                 | None \<Rightarrow> w2)
              else w2
         else w2)"

text \<open>
  The end of \<^verbatim>\<open>handleCacheHit\<close> (lines 197-211): the content length, then the body
  unless the method is HEAD. Reading from a nil stream panics.
\<close>

definition serve :: "request \<Rightarrow> bytes option \<Rightarrow> int \<Rightarrow> state \<Rightarrow> bool outcome \<times> state" where
  "serve r content contentLength st =
     (let st1 = on_writer (w_Set ''Content-Length'' (sprintf_d contentLength)) st
      in if Method r = ''HEAD'' then (Returned True, st1)
         else (case content of
                 None \<Rightarrow> (Panicked, st1)
               | Some b \<Rightarrow> (Returned True, on_writer (io_Copy b) st1)))"

text \<open>
  \<^verbatim>\<open>handleCacheHit\<close> (lines 102-212). The deferred \<^verbatim>\<open>releaseLock\<close> runs when the
  function is left, also by a panic.
\<close>

definition handleCacheHit ::
  "env \<Rightarrow> request \<Rightarrow> bytes \<Rightarrow> int \<Rightarrow> int \<Rightarrow> bool \<Rightarrow> state \<Rightarrow> bool outcome \<times> state" where
  "handleCacheHit e r content contentLength lastModified useIfModifiedSince st =
     (let st0 = emit (GetHeaders (URL_Path r)) st;
          (cachedHeaders, headerErr) = header_GetHeaders e (URL_Path r)
      in if \<not> headerErr then
           if client_not_modified e r cachedHeaders lastModified useIfModifiedSince
           then (Returned True, on_writer (WriteHeader 304) st0)
           else
             let (content', contentLength', cachedHeaders', deferred, st1) =
                    revalidate e r content contentLength cachedHeaders lastModified
                      useIfModifiedSince st0;
                 st2 = on_writer (\<lambda>w. w\<lparr>wheader := copy_header cachedHeaders' (wheader w)\<rparr>) st1;
                 (res, st3) = serve r content' contentLength' st2
             in (res, if deferred
                      then st3\<lparr>locks := releaseLock (URL_Path r) (locks st3)\<rparr> else st3)
         else
           serve r (Some content) contentLength
             (on_writer (setBasicHeaders e r cachedHeaders lastModified useIfModifiedSince) st0))"

text \<open>
  The request \<^verbatim>\<open>handleCacheMiss\<close> sends to the origin (lines 343-359): the client's
  method, the fixed \<^verbatim>\<open>User-Agent\<close>, and the client's \<^verbatim>\<open>If-Modified-Since\<close> when the
  conditional logic is on and the client sent one.
\<close>

definition miss_request :: "env \<Rightarrow> request \<Rightarrow> bool \<Rightarrow> origin_request" where
  "miss_request e r useIfModifiedSince =
     (let h1 = header_Set [] ''User-Agent'' ''Go-APT-Cache/1.0'';
          h2 = (if useIfModifiedSince then
                  let ifModifiedSince = header_Get (ReqHeader r) ''If-Modified-Since''
                  in if ifModifiedSince \<noteq> []
                     then header_Set h1 ''If-Modified-Since'' ifModifiedSince else h1
                else h1)
      in \<lparr>o_method = Method r, o_url = OriginServer e @ URL_Path r, o_header = h2\<rparr>)"

text \<open>
  The fetch of \<^verbatim>\<open>handleCacheMiss\<close> once the lock is held (lines 337-435).
\<close>

definition miss_fetch :: "env \<Rightarrow> request \<Rightarrow> bool \<Rightarrow> state \<Rightarrow> unit outcome \<times> state" where
  "miss_fetch e r useIfModifiedSince st =
     (let path = URL_Path r;
          originURL = OriginServer e @ path;
          st1 = (if LogRequests e then logf ''Cache miss, fetching from origin'' st else st)
      in if \<not> NewRequest_ok e originURL
         then (Returned (),
               logf ''Error creating request to origin''
                 (on_writer (http_Error ''Internal Server Error'' 500) st1))
         else
           let req = miss_request e r useIfModifiedSince;
               st2 = emit (OriginDo req) st1
           in case client_Do e req of
                None \<Rightarrow>
                  (Returned (),
                   logf ''Error fetching from origin''
                     (on_writer (http_Error ''Gateway Timeout'' 504) st2))
              | Some resp \<Rightarrow>
                  if StatusCode resp = 304
                  then (Returned (), on_writer (WriteHeader 304) st2)
                  else if StatusCode resp \<noteq> 200
                  then (Returned (),
                        on_writer (\<lambda>w. io_Copy (case Body resp of None \<Rightarrow> [] | Some b \<Rightarrow> b)
                                          (WriteHeader (StatusCode resp) w)) st2)
                  else
                    (case Body resp of
                       None \<Rightarrow>
                         (Returned (),
                          logf ''Error reading response from origin''
                            (on_writer (http_Error ''Internal Server Error'' 500) st2))
                     | Some body \<Rightarrow>
                         let lastModifiedTime = fetched_last_modified e (RespHeader resp);
                             st3 = emit (CachePut path body (int (length body))
                                           lastModifiedTime) st2;
                             st4 = (if \<not> cache_Put_ok e
                                    then logf ''Error storing in cache'' st3
                                    else if LogRequests e
                                    then logf ''Stored in cache'' st3 else st3);
                             st5 = emit (PutHeaders path (RespHeader resp)) st4;
                             st6 = (if \<not> header_PutHeaders_ok e
                                    then logf ''Error storing headers in cache'' st5
                                    else st5);
                             st7 = on_writer
                                     (\<lambda>w. w\<lparr>wheader := copy_header (RespHeader resp) (wheader w)\<rparr>)
                                     st6;
                             st8 = (if header_Get (wheader (rw st7)) ''Content-Type'' = [] then
                                      let contentType = getContentType path
                                      in if contentType \<noteq> []
                                         then on_writer (w_Set ''Content-Type'' contentType) st7
                                         else st7
                                    else st7);
                             st9 = on_writer (WriteHeader (StatusCode resp)) st8
                         in (Returned (),
                             if Method r \<noteq> ''HEAD''
                             then on_writer (Write body) st9 else st9)))"

text \<open>The holder of the lock fetches and then runs the deferred \<^verbatim>\<open>releaseLock\<close> (line 335).\<close>

definition miss_leader :: "env \<Rightarrow> request \<Rightarrow> bool \<Rightarrow> state \<Rightarrow> unit outcome \<times> state" where
  "miss_leader e r useIfModifiedSince st =
     (let (res, st') = miss_fetch e r useIfModifiedSince st
      in (res, st'\<lparr>locks := releaseLock (URL_Path r) (locks st')\<rparr>))"

text \<open>\<^verbatim>\<open>handleCacheMiss\<close> (lines 305-436).\<close>

definition handleCacheMiss :: "env \<Rightarrow> request \<Rightarrow> bool \<Rightarrow> state \<Rightarrow> unit outcome \<times> state" where
  "handleCacheMiss e r useIfModifiedSince st =
     (let path = URL_Path r;
          (acquired, ch, reg) = acquireLock path (locks st);
          st1 = st\<lparr>locks := reg\<rparr>
      in if \<not> acquired then
           let st2 = emit (CacheGet path) (wait_chan e ch st1)
           in case cache_Get_after_wait e path of
                Some (content, contentLength, lastModified) \<Rightarrow>
                  let st3 = (if LogRequests e
                             then logf ''Resource was fetched by another request'' st2
                             else st2)
                  in (case handleCacheHit e r content contentLength lastModified
                             useIfModifiedSince st3 of
                        (Returned b, st4) \<Rightarrow> (Returned (), st4)
                      | (Panicked, st4) \<Rightarrow> (Panicked, st4))
              | None \<Rightarrow>
                  let (acquired2, ch2, reg2) = acquireLock path (locks st2);
                      st3 = st2\<lparr>locks := reg2\<rparr>
                  in if \<not> acquired2
                     then (Returned (),
                           on_writer (http_Error ''Server busy, please try again'' 503) st3)
                     else miss_leader e r useIfModifiedSince st3
         else miss_leader e r useIfModifiedSince st1)"

text \<open>
  The body shared by \<^verbatim>\<open>HandleRelease\<close> and \<^verbatim>\<open>HandleCacheableRequest\<close> after
  validation: the cache lookup, then the hit or the miss handler.
\<close>

definition handle_validated ::
  "env \<Rightarrow> request \<Rightarrow> bool \<Rightarrow> state \<Rightarrow> unit outcome \<times> state" where
  "handle_validated e r useIfModifiedSince st =
     (let st1 = emit (CacheGet (URL_Path r)) st
      in case cache_Get e (URL_Path r) of
           Some (content, contentLength, lastModified) \<Rightarrow>
             let st2 = (if LogRequests e then logf ''Cache hit for'' st1 else st1)
             in (case handleCacheHit e r content contentLength lastModified
                        useIfModifiedSince st2 of
                   (Returned True, st3) \<Rightarrow> (Returned (), st3)
                 | (Returned False, st3) \<Rightarrow> handleCacheMiss e r useIfModifiedSince st3
                 | (Panicked, st3) \<Rightarrow> (Panicked, st3))
         | None \<Rightarrow> handleCacheMiss e r useIfModifiedSince st1)"

text \<open>\<^verbatim>\<open>HandleRelease\<close> (lines 520-546): the conditional logic is always on.\<close>

definition HandleRelease :: "env \<Rightarrow> request \<Rightarrow> state \<Rightarrow> unit outcome \<times> state" where
  "HandleRelease e r st =
     (let st0 = (if LogRequests e then logf ''Release request'' st else st)
      in case validateRequest r (rw st0) of
           (False, w) \<Rightarrow> (Returned (), st0\<lparr>rw := w\<rparr>)
         | (True, w) \<Rightarrow> handle_validated e r True st0)"

text \<open>\<^verbatim>\<open>HandleCacheableRequest\<close> (lines 549-577).\<close>

definition HandleCacheableRequest :: "env \<Rightarrow> request \<Rightarrow> state \<Rightarrow> unit outcome \<times> state" where
  "HandleCacheableRequest e r st =
     (let st0 = (if LogRequests e then logf ''Request'' st else st)
      in case validateRequest r (rw st0) of
           (False, w) \<Rightarrow> (Returned (), st0\<lparr>rw := w\<rparr>)
         | (True, w) \<Rightarrow>
             handle_validated e r (shouldUseIfModifiedSince (URL_Path r)) st0)"

text \<open>
  The status of the response: the one written, else 200 when the handler returns; a
  handler that panics before writing sends none.
\<close>

definition response_status :: "'a outcome \<times> state \<Rightarrow> nat option" where
  "response_status x =
     (case wrote (rw (snd x)) of
        Some (c, h) \<Rightarrow> Some c
      | None \<Rightarrow> (case fst x of Returned v \<Rightarrow> Some 200 | Panicked \<Rightarrow> None))"

definition initial_state :: state where
  "initial_state = \<lparr>rw = new_writer, trace = [], locks = empty_registry\<rparr>"

section \<open>Concurrent requests on the refetch of a cache hit\<close>

text \<open>
  Several requests run \<^verbatim>\<open>handleCacheHit\<close> at once and share the registry. Each one is
  followed from the point where the origin's HEAD has answered 200 (line 162):
  \<^item> \<open>AtAcquire\<close>: about to call \<^verbatim>\<open>acquireLock\<close> (line 167);
  \<^item> \<open>Waiting ch\<close>: blocked in \<^verbatim>\<open><-ch\<close> (line 171);
  \<^item> \<open>Fetching d\<close>: inside \<^verbatim>\<open>fetchAndUpdateCache\<close> (line 174), its GET to the origin
    in flight; \<open>d\<close> tells whether \<^verbatim>\<open>releaseLock\<close> was deferred (line 169);
  \<^item> \<open>Responding d\<close>: the GET is over, the response is being written;
  \<^item> \<open>Finished\<close>: the handler has returned and its deferred call has run.
\<close>

datatype pc = AtAcquire | Waiting nat | Fetching bool | Responding bool | Finished

text \<open>One step of a request for path \<open>p\<close>; a blocked request stays where it is.\<close>

fun step_request :: "string \<Rightarrow> pc \<Rightarrow> registry \<Rightarrow> pc \<times> registry" where
  "step_request p AtAcquire reg =
     (let (acquired, ch, reg') = acquireLock p reg
      in (if acquired then Fetching True else Waiting ch, reg'))"
| "step_request p (Waiting ch) reg =
     (if ch \<in> set (closed reg) then (Fetching False, reg) else (Waiting ch, reg))"
| "step_request p (Fetching d) reg = (Responding d, reg)"
| "step_request p (Responding d) reg = (Finished, if d then releaseLock p reg else reg)"
| "step_request p Finished reg = (Finished, reg)"

record system =
  shared :: registry
  requests :: "(string \<times> pc) list"

text \<open>The scheduler lets request number \<open>i\<close> take a step.\<close>

definition step :: "nat \<Rightarrow> system \<Rightarrow> system" where
  "step i s =
     (if i < length (requests s) then
        let (p, c) = requests s ! i;
            (c', reg') = step_request p c (shared s)
        in \<lparr>shared = reg', requests = (requests s)[i := (p, c')]\<rparr>
      else s)"

fun run :: "nat list \<Rightarrow> system \<Rightarrow> system" where
  "run [] s = s"
| "run (i # sched) s = run sched (step i s)"

fun is_fetching :: "pc \<Rightarrow> bool" where
  "is_fetching (Fetching d) = True"
| "is_fetching c = False"

text \<open>The number of origin GETs for path \<open>p\<close> that are in flight.\<close>

definition in_flight :: "string \<Rightarrow> system \<Rightarrow> nat" where
  "in_flight p s = length (filter (\<lambda>(q, c). q = p \<and> is_fetching c) (requests s))"

text \<open>\<open>n\<close> requests for the same path, all at line 167, and nothing in progress.\<close>

definition start :: "string \<Rightarrow> nat \<Rightarrow> system" where
  "start p n = \<lparr>shared = empty_registry, requests = replicate n (p, AtAcquire)\<rparr>"

section \<open>The classifier as the specification words it\<close>

text \<open>
  The specification's third rule looks at the basename of the path: what follows the
  last slash.
\<close>

definition basename :: "string \<Rightarrow> string" where
  "basename p = rev (takeWhile (\<lambda>c. c \<noteq> CHR ''/'') (rev p))"

definition spec_use_conditional :: "string \<Rightarrow> bool" where
  "spec_use_conditional p =
     (if strings_Contains p ''/dists/'' then True
      else if strings_Contains p ''/pool/'' then False
      else if contains_any (basename p) frequentlyChangingPatterns then True
      else False)"

section \<open>The authoritative Last-Modified of a cache hit\<close>

text \<open>
  The time a cache hit compares with the client's \<^verbatim>\<open>If-Modified-Since\<close>: the
  \<^verbatim>\<open>Last-Modified\<close> of the stored headers when the headers are there and the value
  parses, else the time stored with the entry.
\<close>

definition authoritative_last_modified :: "env \<Rightarrow> string \<Rightarrow> int \<Rightarrow> int" where
  "authoritative_last_modified e path lastModified =
     (case header_GetHeaders e path of
        (cachedHeaders, headerErr) \<Rightarrow>
          if headerErr then lastModified
          else
            let s = header_Get cachedHeaders ''Last-Modified''
            in if s = [] then lastModified
               else (case time_Parse e s of Some t \<Rightarrow> t | None \<Rightarrow> lastModified))"

section \<open>Concrete requests and collaborators\<close>

text \<open>
  A clock that knows two dates, an origin that cannot be reached, empty caches. The
  scenarios below change one collaborator at a time.
\<close>

definition jan1 :: string where
  "jan1 = ''Mon, 01 Jan 2024 00:00:00 GMT''"

definition jan2 :: string where
  "jan2 = ''Tue, 02 Jan 2024 00:00:00 GMT''"

definition ex_time_Parse :: "string \<Rightarrow> int option" where
  "ex_time_Parse s =
     (if s = jan1 then Some 1704067200 else if s = jan2 then Some 1704153600 else None)"

definition ex_time_Format :: "int \<Rightarrow> string" where
  "ex_time_Format t = (if t = 1704067200 then jan1 else if t = 1704153600 then jan2 else [])"

definition ex_env :: env where
  "ex_env =
     \<lparr>OriginServer = ''http://origin'', LogRequests = False,
      cache_Get = (\<lambda>p. None), cache_Get_after_wait = (\<lambda>p. None),
      header_GetHeaders = (\<lambda>p. ([], True)),
      cache_Put_ok = True, header_PutHeaders_ok = True,
      client_Do = (\<lambda>q. None), NewRequest_ok = (\<lambda>u. True),
      time_Parse = ex_time_Parse, time_Format = ex_time_Format, time_Now = 1704240000,
      registry_after_wait = empty_registry\<rparr>"

definition ex_request :: "string \<Rightarrow> string \<Rightarrow> header \<Rightarrow> request" where
  "ex_request m p h = \<lparr>Method = m, URL_Path = p, URL_RawQuery = [], ReqHeader = h\<rparr>"

definition inrelease :: string where
  "inrelease = ''/ubuntu/dists/jammy/InRelease''"

definition inrelease_body :: bytes where
  "inrelease_body = ''Origin: Ubuntu''"

text \<open>The blob cache holds the InRelease file, stored on 1 January; no cached headers.\<close>

definition ex_env_hit :: env where
  "ex_env_hit = ex_env\<lparr>cache_Get := (\<lambda>p. Some (inrelease_body, 14, 1704067200))\<rparr>"

text \<open>The header cache holds its headers as well.\<close>

definition ex_env_headers :: env where
  "ex_env_headers =
     ex_env_hit\<lparr>header_GetHeaders :=
       (\<lambda>p. ([(''Content-Type'', [''text/plain'']), (''Last-Modified'', [jan1])], False))\<rparr>"

text \<open>An origin that answers 200 to HEAD and does not answer a GET.\<close>

definition ex_env_refetch_fails :: env where
  "ex_env_refetch_fails =
     ex_env_headers\<lparr>client_Do :=
       (\<lambda>q. if o_method q = ''HEAD''
            then Some \<lparr>StatusCode = 200, RespHeader = [], ContentLength = 14, Body = Some []\<rparr>
            else None)\<rparr>"








definition pool_release :: string where
  "pool_release = ''/ubuntu/pool/main/l/lsb/lsb-Release_11.deb''"

section \<open>Reading a trace\<close>

text \<open>The calls in a trace: everything but the log lines.\<close>

fun is_call :: "event \<Rightarrow> bool" where
  "is_call (Log msg) = False"
| "is_call ev = True"

definition calls :: "event list \<Rightarrow> event list" where
  "calls evs = filter is_call evs"

section \<open>Facts about strings and headers\<close>

lemma strings_Contains_iff: "strings_Contains s sub \<longleftrightarrow> (\<exists>a b. s = a @ sub @ b)"
proof (induction s)
  case Nil
  then show ?case by auto
next
  case (Cons c s)
  show ?case
  proof
    assume "strings_Contains (c # s) sub"
    then consider "strings_HasPrefix (c # s) sub" | "strings_Contains s sub" by auto
    then show "\<exists>a b. c # s = a @ sub @ b"
    proof cases
      case 1
      then have "c # s = [] @ sub @ drop (length sub) (c # s)"
        unfolding strings_HasPrefix_def by (metis append_Nil append_take_drop_id)
      then show ?thesis by blast
    next
      case 2
      then obtain a b where "s = a @ sub @ b" using Cons.IH by blast
      then have "c # s = (c # a) @ sub @ b" by simp
      then show ?thesis by blast
    qed
  next
    assume "\<exists>a b. c # s = a @ sub @ b"
    then obtain a b where ab: "c # s = a @ sub @ b" by blast
    show "strings_Contains (c # s) sub"
    proof (cases a)
      case Nil
      then have "strings_HasPrefix (c # s) sub"
        using ab by (simp add: strings_HasPrefix_def)
      then show ?thesis by simp
    next
      case (Cons x a')
      then have "s = a' @ sub @ b" using ab by simp
      then show ?thesis using Cons.IH by auto
    qed
  qed
qed

lemma contains_any_iff:
  "contains_any p pats \<longleftrightarrow> (\<exists>pat \<in> set pats. strings_Contains p pat)"
  by (induction pats) auto

lemma header_Values_Set:
  "header_Values (header_Set h k v) k' = (if k' = k then [v] else header_Values h k')"
  by (simp add: header_Values_def header_Set_def update_conv')

lemma header_Get_Set: "header_Get (header_Set h k v) k = v"
  by (simp add: header_Get_def header_Values_Set)

lemma header_Values_Add:
  "header_Values (header_Add h k v) k' =
     (if k' = k then header_Values h k @ [v] else header_Values h k')"
  by (simp add: header_Values_def header_Add_def update_conv')

lemma header_Values_add_values:
  "header_Values (add_values k vs dst) k' =
     (if k' = k then header_Values dst k @ vs else header_Values dst k')"
  by (induction vs arbitrary: dst) (simp_all add: header_Values_Add)

text \<open>
  Copying a header map whose keys are distinct, as those of a Go map are, appends the
  values of each key to those the destination has.
\<close>

lemma header_Values_copy_header:
  "distinct (map fst src) \<Longrightarrow>
   header_Values (copy_header src dst) k = header_Values dst k @ header_Values src k"
proof (induction src arbitrary: dst)
  case Nil
  then show ?case by (simp add: header_Values_def)
next
  case (Cons kv src)
  obtain k0 vs where kv: "kv = (k0, vs)" by (cases kv)
  have d: "distinct (map fst src)" and notin: "k0 \<notin> fst ` set src"
    using Cons.prems kv by auto
  have "map_of src k0 = None"
    using notin by (simp add: map_of_eq_None_iff)
  then have none: "header_Values src k0 = []"
    by (simp add: header_Values_def)
  have here: "header_Values (kv # src) k = (if k = k0 then vs else header_Values src k)"
    using kv by (simp add: header_Values_def)
  have "header_Values (copy_header (kv # src) dst) k =
        header_Values (add_values k0 vs dst) k @ header_Values src k"
    using Cons.IH [OF d] kv by simp
  also have "\<dots> = header_Values dst k @ header_Values (kv # src) k"
    using none by (simp add: header_Values_add_values here)
  finally show ?case .
qed

section \<open>The classifier\<close>

text \<open>
  C7, as amended. \<^verbatim>\<open>shouldUseIfModifiedSince\<close> answers true for a path that contains
  \<^verbatim>\<open>/dists/\<close>; else false for one that contains \<^verbatim>\<open>/pool/\<close>; else true exactly when
  one of the eleven tokens occurs anywhere in the path, in a directory name as well as
  in the basename.
\<close>

theorem use_conditional_rules:
  "shouldUseIfModifiedSince p \<longleftrightarrow>
     (\<exists>a b. p = a @ ''/dists/'' @ b) \<or>
     (\<not> (\<exists>a b. p = a @ ''/pool/'' @ b) \<and>
      (\<exists>tok \<in> set [''Release'', ''Release.gpg'', ''InRelease'', ''Packages'',
                    ''Packages.gz'', ''Packages.xz'', ''Sources'', ''Sources.gz'',
                    ''Sources.xz'', ''Contents-'', ''Index''].
         \<exists>a b. p = a @ tok @ b))"
  unfolding shouldUseIfModifiedSince_def contains_any_iff frequentlyChangingPatterns_def
    strings_Contains_iff
  by auto

text \<open>The amended rule at a path whose directory holds the token.\<close>

theorem use_conditional_rules_witness:
  "shouldUseIfModifiedSince ''/mirror/Release/notes.txt''"
proof -
  have tok: "\<exists>tok \<in> set [''Release'', ''Release.gpg'', ''InRelease'', ''Packages'',
                    ''Packages.gz'', ''Packages.xz'', ''Sources'', ''Sources.gz'',
                    ''Sources.xz'', ''Contents-'', ''Index''].
         \<exists>a b. ''/mirror/Release/notes.txt'' = a @ tok @ b"
  proof (intro bexI exI)
    show "''/mirror/Release/notes.txt'' = ''/mirror/'' @ ''Release'' @ ''/notes.txt''"
      by simp
    show "''Release'' \<in> set [''Release'', ''Release.gpg'', ''InRelease'', ''Packages'',
                    ''Packages.gz'', ''Packages.xz'', ''Sources'', ''Sources.gz'',
                    ''Sources.xz'', ''Contents-'', ''Index'']"
      by simp
  qed
  have no: "\<not> strings_Contains ''/mirror/Release/notes.txt'' ''/pool/''"
    by (simp add: strings_HasPrefix_def)
  have pool: "\<not> (\<exists>a b. ''/mirror/Release/notes.txt'' = a @ ''/pool/'' @ b)"
  proof
    assume "\<exists>a b. ''/mirror/Release/notes.txt'' = a @ ''/pool/'' @ b"
    then have "strings_Contains ''/mirror/Release/notes.txt'' ''/pool/''"
      by (rule iffD2 [OF strings_Contains_iff])
    with no show False by (rule notE)
  qed
  show ?thesis
    by (rule iffD2 [OF use_conditional_rules], rule disjI2, rule conjI, rule pool, rule tok)
qed

text \<open>
  The claim as the specification words it fails on that path: the source answers true,
  the rule on the basename \<^verbatim>\<open>notes.txt\<close> answers false.
\<close>

theorem use_conditional_basename_counterexample:
  "shouldUseIfModifiedSince ''/mirror/Release/notes.txt'' \<and>
   \<not> spec_use_conditional ''/mirror/Release/notes.txt''"
  by (simp add: shouldUseIfModifiedSince_def spec_use_conditional_def basename_def
      frequentlyChangingPatterns_def strings_HasPrefix_def)

section \<open>Single flight on the refetch of a cache hit\<close>

text \<open>
  C1 fails on the source. Three requests for one path reach line 167 after the origin's
  HEAD answered 200. The first acquires the lock and fetches; the other two wait on its
  channel. When the first returns, its deferred \<^verbatim>\<open>releaseLock\<close> closes the channel,
  both waiters wake and each calls \<^verbatim>\<open>fetchAndUpdateCache\<close> without the lock: two
  origin GETs for the path are in flight together.
\<close>

theorem refetch_two_gets_in_flight:
  "in_flight ''/ubuntu/dists/jammy/InRelease''
     (run [0, 1, 2, 0, 0, 1, 2] (start ''/ubuntu/dists/jammy/InRelease'' 3)) = 2"
  by code_simp

section \<open>Facts about the handlers\<close>

lemma response_status_304:
  "response_status x = Some 304 \<longleftrightarrow> written_status (rw (snd x)) = Some 304"
  by (auto simp: response_status_def written_status_def split: option.splits outcome.splits)

lemma fetchAndUpdateCache_rw:
  "rw (snd (snd (snd (fetchAndUpdateCache e p u st)))) = rw st"
  by (simp add: fetchAndUpdateCache_def Let_def logf_def emit_def split: option.splits)

lemma revalidate_rw:
  "rw (snd (snd (snd (snd (revalidate e r c n h lm u st))))) = rw st"
  by (simp add: revalidate_def Let_def case_prod_beta logf_def emit_def wait_chan_def
      fetchAndUpdateCache_rw split: option.splits)

lemma serve_304:
  "written_status (rw (snd (serve r c n st))) = Some 304 \<longleftrightarrow>
   written_status (rw st) = Some 304"
  by (auto simp: serve_def Let_def on_writer_def w_Set_def io_Copy_def Write_def
      WriteHeader_def written_status_def split: option.splits)

lemma setBasicHeaders_304:
  assumes "wrote w = None"
  shows "written_status (setBasicHeaders e r h lastModified u w) = Some 304 \<longleftrightarrow>
         u \<and> header_Get (ReqHeader r) ''If-Modified-Since'' \<noteq> [] \<and>
         (\<exists>T. time_Parse e (header_Get (ReqHeader r) ''If-Modified-Since'') = Some T \<and>
              lastModified \<le> T)"
  using assms
  by (auto simp: setBasicHeaders_def Let_def w_Set_def WriteHeader_def written_status_def
      split: option.splits)

section \<open>Request validation\<close>

text \<open>
  C6. A request whose method is neither GET nor HEAD is answered 405, and a GET or HEAD
  with a non-empty query string is answered 403, by both handlers; the handler returns
  at once, having made no call to a cache or to the origin and having left the registry
  alone, whatever the path and the caches hold.
\<close>

theorem invalid_request_rejected:
  assumes "wrote (rw st) = None"
  shows "(Method r \<noteq> ''GET'' \<and> Method r \<noteq> ''HEAD'' \<longrightarrow>
            response_status (HandleCacheableRequest e r st) = Some 405 \<and>
            response_status (HandleRelease e r st) = Some 405) \<and>
         ((Method r = ''GET'' \<or> Method r = ''HEAD'') \<and> URL_RawQuery r \<noteq> [] \<longrightarrow>
            response_status (HandleCacheableRequest e r st) = Some 403 \<and>
            response_status (HandleRelease e r st) = Some 403) \<and>
         (\<not> (Method r = ''GET'' \<or> Method r = ''HEAD'') \<or> URL_RawQuery r \<noteq> [] \<longrightarrow>
            fst (HandleCacheableRequest e r st) = Returned () \<and>
            calls (trace (snd (HandleCacheableRequest e r st))) = calls (trace st) \<and>
            locks (snd (HandleCacheableRequest e r st)) = locks st \<and>
            fst (HandleRelease e r st) = Returned () \<and>
            calls (trace (snd (HandleRelease e r st))) = calls (trace st) \<and>
            locks (snd (HandleRelease e r st)) = locks st)"
  using assms
  by (simp add: HandleCacheableRequest_def HandleRelease_def validateRequest_def Let_def
      response_status_def http_Error_def Write_def WriteHeader_def w_Set_def logf_def
      emit_def calls_def)

theorem invalid_request_rejected_witness:
  "response_status (HandleCacheableRequest ex_env (ex_request ''POST'' pool_release [])
      initial_state) = Some 405 \<and>
   response_status (HandleCacheableRequest ex_env
      ((ex_request ''GET'' pool_release [])\<lparr>URL_RawQuery := ''x=1''\<rparr>) initial_state) = Some 403 \<and>
   calls (trace (snd (HandleCacheableRequest ex_env (ex_request ''POST'' pool_release [])
      initial_state))) = []"
proof -
  have fresh: "wrote (rw initial_state) = None"
    by (simp add: initial_state_def new_writer_def)
  have post: "Method (ex_request ''POST'' pool_release []) \<noteq> ''GET'' \<and>
              Method (ex_request ''POST'' pool_release []) \<noteq> ''HEAD''"
    by (simp add: ex_request_def)
  have query: "(Method ((ex_request ''GET'' pool_release [])\<lparr>URL_RawQuery := ''x=1''\<rparr>) = ''GET'' \<or>
                Method ((ex_request ''GET'' pool_release [])\<lparr>URL_RawQuery := ''x=1''\<rparr>) = ''HEAD'') \<and>
               URL_RawQuery ((ex_request ''GET'' pool_release [])\<lparr>URL_RawQuery := ''x=1''\<rparr>) \<noteq> []"
    by (simp add: ex_request_def)
  have none: "calls (trace initial_state) = []"
    by (simp add: initial_state_def calls_def)
  show ?thesis
    using invalid_request_rejected [OF fresh, of "ex_request ''POST'' pool_release []" ex_env]
      invalid_request_rejected [OF fresh,
        of "(ex_request ''GET'' pool_release [])\<lparr>URL_RawQuery := ''x=1''\<rparr>" ex_env]
      post query none
    by (simp add: ex_request_def)
qed

section \<open>The conditional answer of a cache hit\<close>

text \<open>
  C2. On a cache hit handled with the conditional logic on, for a client that sent an
  \<^verbatim>\<open>If-Modified-Since\<close> that parses to \<open>T\<close>, the status of the response is 304 exactly
  when the authoritative Last-Modified is not after \<open>T\<close>; equal times give 304.
\<close>

theorem hit_304_iff_not_modified:
  assumes "wrote (rw st) = None"
    and "header_Get (ReqHeader r) ''If-Modified-Since'' \<noteq> []"
    and "time_Parse e (header_Get (ReqHeader r) ''If-Modified-Since'') = Some T"
  shows "response_status (handleCacheHit e r content contentLength lastModified True st)
           = Some 304
         \<longleftrightarrow> authoritative_last_modified e (URL_Path r) lastModified \<le> T"
proof (cases "header_GetHeaders e (URL_Path r)")
  case (Pair cachedHeaders headerErr)
  let ?st0 = "emit (GetHeaders (URL_Path r)) st"
  have fresh: "wrote (rw ?st0) = None"
    using assms(1) by (simp add: emit_def)
  show ?thesis
  proof (cases headerErr)
    case True
    have run: "handleCacheHit e r content contentLength lastModified True st =
               serve r (Some content) contentLength
                 (on_writer (setBasicHeaders e r cachedHeaders lastModified True) ?st0)"
      using Pair True by (simp add: handleCacheHit_def)
    have auth: "authoritative_last_modified e (URL_Path r) lastModified = lastModified"
      using Pair True by (simp add: authoritative_last_modified_def)
    have "response_status (handleCacheHit e r content contentLength lastModified True st)
            = Some 304
          \<longleftrightarrow> written_status (setBasicHeaders e r cachedHeaders lastModified True (rw ?st0))
            = Some 304"
      by (simp only: run response_status_304 serve_304) (simp add: on_writer_def)
    also have "\<dots> \<longleftrightarrow> lastModified \<le> T"
      using assms(2,3) by (simp add: setBasicHeaders_304 [OF fresh])
    finally show ?thesis by (simp only: auth)
  next
    case False
    show ?thesis
    proof (cases "client_not_modified e r cachedHeaders lastModified True")
      case True
      have run: "handleCacheHit e r content contentLength lastModified True st =
                 (Returned True, on_writer (WriteHeader 304) ?st0)"
        using Pair False True by (simp add: handleCacheHit_def)
      have "response_status (handleCacheHit e r content contentLength lastModified True st)
              = Some 304"
        using fresh
        by (simp add: run response_status_def on_writer_def WriteHeader_def)
      moreover have "authoritative_last_modified e (URL_Path r) lastModified \<le> T"
        using True Pair False assms(2,3)
        by (auto simp: authoritative_last_modified_def client_not_modified_def Let_def
            split: option.splits if_splits)
      ultimately show ?thesis by simp
    next
      case nm: False
      have after: "\<not> authoritative_last_modified e (URL_Path r) lastModified \<le> T"
        using nm Pair False assms(2,3)
        by (auto simp: authoritative_last_modified_def client_not_modified_def Let_def
            split: option.splits if_splits)
      let ?rv = "revalidate e r content contentLength cachedHeaders lastModified True ?st0"
      let ?st2 = "on_writer (\<lambda>w. w\<lparr>wheader := copy_header (fst (snd (snd ?rv))) (wheader w)\<rparr>)
                    (snd (snd (snd (snd ?rv))))"
      have rw2: "written_status (rw ?st2) = None"
        using fresh by (simp add: on_writer_def revalidate_rw written_status_def)
      have "rw (snd (handleCacheHit e r content contentLength lastModified True st)) =
            rw (snd (serve r (fst ?rv) (fst (snd ?rv)) ?st2))"
        using Pair False nm by (simp add: handleCacheHit_def case_prod_beta Let_def)
      then have "response_status
                   (handleCacheHit e r content contentLength lastModified True st)
                 \<noteq> Some 304"
        using rw2 by (simp only: response_status_304 serve_304) simp
      then show ?thesis using after by simp
    qed
  qed
qed

theorem hit_304_iff_not_modified_witness:
  "response_status
     (handleCacheHit ex_env_headers
        (ex_request ''GET'' inrelease [(''If-Modified-Since'', [jan1])])
        inrelease_body 14 1704067200 True initial_state) = Some 304 \<and>
   authoritative_last_modified ex_env_headers inrelease 1704067200 \<le> 1704067200"
proof -
  let ?r = "ex_request ''GET'' inrelease [(''If-Modified-Since'', [jan1])]"
  have fresh: "wrote (rw initial_state) = None"
    by (simp add: initial_state_def new_writer_def)
  have ims: "header_Get (ReqHeader ?r) ''If-Modified-Since'' = jan1"
    by (simp add: ex_request_def header_Get_def header_Values_def)
  have sent: "header_Get (ReqHeader ?r) ''If-Modified-Since'' \<noteq> []"
    unfolding ims by (simp add: jan1_def)
  have parsed: "time_Parse ex_env_headers (header_Get (ReqHeader ?r) ''If-Modified-Since'')
                  = Some 1704067200"
    by (simp add: ims ex_env_headers_def ex_env_hit_def ex_env_def ex_time_Parse_def)
  have path: "URL_Path ?r = inrelease"
    by (simp add: ex_request_def)
  have auth: "authoritative_last_modified ex_env_headers inrelease 1704067200 \<le> 1704067200"
    by (simp add: authoritative_last_modified_def ex_env_headers_def ex_env_hit_def
        ex_env_def ex_time_Parse_def header_Get_def header_Values_def jan1_def)
  show ?thesis
    using hit_304_iff_not_modified [OF fresh sent parsed, of inrelease_body 14 1704067200]
      auth
    by (simp add: path)
qed

section \<open>Revalidation against the origin\<close>

lemma serve_trace: "trace (snd (serve r c n st)) = trace st"
  by (simp add: serve_def Let_def on_writer_def split: option.splits)

lemma fetchAndUpdateCache_trace:
  "set (trace st) \<subseteq> set (trace (snd (snd (snd (fetchAndUpdateCache e p u st)))))"
  by (auto simp: fetchAndUpdateCache_def Let_def logf_def emit_def split: option.splits)

lemma revalidation_request_eq:
  "revalidation_request e r cachedHeaders lastModified =
     \<lparr>o_method = ''HEAD'', o_url = OriginServer e @ URL_Path r,
      o_header =
        [(''If-Modified-Since'',
          [if header_Get cachedHeaders ''Last-Modified'' \<noteq> []
           then header_Get cachedHeaders ''Last-Modified''
           else time_Format e lastModified]),
         (''User-Agent'', [''Go-APT-Cache/1.0''])]\<rparr>"
  by (simp add: revalidation_request_def Let_def header_Set_def)

lemma revalidate_issues_head:
  assumes "useIfModifiedSince" and "shouldValidateWithOrigin (URL_Path r)"
    and "NewRequest_ok e (OriginServer e @ URL_Path r)"
  shows "OriginDo (revalidation_request e r cachedHeaders lastModified)
           \<in> set (trace (snd (snd (snd (snd
                 (revalidate e r content contentLength cachedHeaders lastModified
                    useIfModifiedSince st))))))"
proof (cases "client_Do e (revalidation_request e r cachedHeaders lastModified)")
  case None
  then show ?thesis
    using assms by (simp add: revalidate_def Let_def logf_def emit_def)
next
  case (Some resp)
  show ?thesis
  proof (cases "StatusCode resp = 200")
    case False
    then show ?thesis
      using assms Some by (simp add: revalidate_def Let_def logf_def emit_def)
  next
    case True
    let ?q = "revalidation_request e r cachedHeaders lastModified"
    let ?st2 = "logf ''Upstream has newer version'' (emit (OriginDo ?q) st)"
    let ?a = "acquireLock (URL_Path r) (locks ?st2)"
    let ?st3 = "?st2\<lparr>locks := snd (snd ?a)\<rparr>"
    let ?st4 = "if fst ?a then ?st3 else wait_chan e (fst (snd ?a)) ?st3"
    have "OriginDo ?q \<in> set (trace ?st4)"
      by (simp add: logf_def emit_def wait_chan_def)
    then have "OriginDo ?q \<in> set (trace (snd (snd (snd
                 (fetchAndUpdateCache e (URL_Path r) (OriginServer e @ URL_Path r) ?st4)))))"
      using fetchAndUpdateCache_trace by blast
    then show ?thesis
      using assms Some True by (simp add: revalidate_def Let_def case_prod_beta)
  qed
qed

text \<open>
  C8, as amended. On a cache hit whose cached headers are available, that is handled
  with the conditional logic on (\<open>useIfModifiedSince\<close>), whose path has
  \<open>validate_with_origin\<close>, that was not answered 304 to the client, and for which the
  request to the origin can be built, the handler sends the origin a HEAD request whose
  \<^verbatim>\<open>If-Modified-Since\<close> is the cached \<^verbatim>\<open>Last-Modified\<close> value when that is not empty,
  else the stored time formatted, and whose \<^verbatim>\<open>User-Agent\<close> is \<^verbatim>\<open>Go-APT-Cache/1.0\<close>.
\<close>

theorem hit_revalidates_with_head:
  assumes "header_GetHeaders e (URL_Path r) = (cachedHeaders, False)"
    and "\<not> client_not_modified e r cachedHeaders lastModified useIfModifiedSince"
    and "useIfModifiedSince" and "shouldValidateWithOrigin (URL_Path r)"
    and "NewRequest_ok e (OriginServer e @ URL_Path r)"
  shows "OriginDo
           \<lparr>o_method = ''HEAD'', o_url = OriginServer e @ URL_Path r,
            o_header =
              [(''If-Modified-Since'',
                [if header_Get cachedHeaders ''Last-Modified'' \<noteq> []
                 then header_Get cachedHeaders ''Last-Modified''
                 else time_Format e lastModified]),
               (''User-Agent'', [''Go-APT-Cache/1.0''])]\<rparr>
         \<in> set (trace (snd (handleCacheHit e r content contentLength lastModified
                              useIfModifiedSince st)))"
proof -
  let ?st0 = "emit (GetHeaders (URL_Path r)) st"
  let ?rv = "revalidate e r content contentLength cachedHeaders lastModified
               useIfModifiedSince ?st0"
  have "trace (snd (handleCacheHit e r content contentLength lastModified
                      useIfModifiedSince st)) = trace (snd (snd (snd (snd ?rv))))"
    using assms(1,2)
    by (simp add: handleCacheHit_def Let_def case_prod_beta serve_trace on_writer_def)
  then show ?thesis
    using revalidate_issues_head [OF assms(3,4,5), of cachedHeaders lastModified content
        contentLength ?st0]
    by (simp only: revalidation_request_eq)
qed

theorem hit_revalidates_with_head_witness:
  "OriginDo
     \<lparr>o_method = ''HEAD'', o_url = ''http://origin/ubuntu/dists/jammy/InRelease'',
      o_header = [(''If-Modified-Since'', [''Mon, 01 Jan 2024 00:00:00 GMT'']),
                  (''User-Agent'', [''Go-APT-Cache/1.0''])]\<rparr>
   \<in> set (trace (snd (handleCacheHit ex_env_headers (ex_request ''GET'' inrelease [])
                        inrelease_body 14 1704067200 True initial_state)))"
proof -
  let ?r = "ex_request ''GET'' inrelease []"
  let ?h = "[(''Content-Type'', [''text/plain'']), (''Last-Modified'', [jan1])]"
  have hdrs: "header_GetHeaders ex_env_headers (URL_Path ?r) = (?h, False)"
    by (simp add: ex_env_headers_def)
  have nm: "\<not> client_not_modified ex_env_headers ?r ?h 1704067200 True"
    by (simp add: client_not_modified_def ex_request_def header_Get_def header_Values_def)
  have val: "shouldValidateWithOrigin (URL_Path ?r)"
    by (simp add: ex_request_def inrelease_def shouldValidateWithOrigin_def
        criticalPatterns_def strings_HasPrefix_def)
  have ok: "NewRequest_ok ex_env_headers (OriginServer ex_env_headers @ URL_Path ?r)"
    by (simp add: ex_env_headers_def ex_env_hit_def ex_env_def)
  show ?thesis
    using hit_revalidates_with_head [OF hdrs nm TrueI val ok, of inrelease_body 14
        initial_state]
    by (simp add: ex_env_headers_def ex_env_hit_def ex_env_def ex_request_def inrelease_def
        header_Get_def header_Values_def jan1_def)
qed

text \<open>
  The claim as stated fails where the path has \<open>validate_with_origin\<close> but not
  \<open>use_conditional\<close>: a pool file with \<^verbatim>\<open>Release\<close> in its name is served from the
  cache, cached headers and all, and the origin is never asked.
\<close>

theorem hit_without_head_counterexample:
  "shouldValidateWithOrigin pool_release \<and>
   trace (snd (HandleCacheableRequest ex_env_headers (ex_request ''GET'' pool_release [])
                 initial_state))
     = [CacheGet pool_release, GetHeaders pool_release] \<and>
   response_status (HandleCacheableRequest ex_env_headers
                      (ex_request ''GET'' pool_release []) initial_state) = Some 200"
  by code_simp

section \<open>A transport error during revalidation\<close>

lemma serve_sent_header:
  assumes "wrote (rw st) = None"
  shows "sent_header (rw (snd (serve r c n st)))
         = header_Set (wheader (rw st)) ''Content-Length'' (sprintf_d n)"
  using assms
  by (simp add: serve_def Let_def on_writer_def w_Set_def io_Copy_def Write_def
      WriteHeader_def sent_header_def split: option.splits)

lemma serve_body:
  assumes "wbody (rw st) = []"
  shows "wbody (rw (snd (serve r (Some b) n st))) = (if Method r = ''HEAD'' then [] else b)"
  using assms
  by (simp add: serve_def Let_def on_writer_def w_Set_def io_Copy_def Write_def
      WriteHeader_def)

lemma serve_status_200:
  assumes "wrote (rw st) = None"
  shows "response_status (serve r (Some b) n st) = Some 200"
  using assms
  by (simp add: serve_def Let_def on_writer_def w_Set_def io_Copy_def Write_def
      WriteHeader_def response_status_def)

lemma revalidate_transport_error:
  assumes "useIfModifiedSince" and "shouldValidateWithOrigin (URL_Path r)"
    and "NewRequest_ok e (OriginServer e @ URL_Path r)"
    and "client_Do e (revalidation_request e r cachedHeaders lastModified) = None"
  shows "revalidate e r content contentLength cachedHeaders lastModified
           useIfModifiedSince st =
         (Some content, contentLength, cachedHeaders, False,
          logf ''Error checking with upstream''
            (emit (OriginDo (revalidation_request e r cachedHeaders lastModified)) st))"
  using assms by (simp add: revalidate_def Let_def)

text \<open>
  C9. On a cache hit whose revalidation HEAD fails with a transport error, the handler
  returns normally with status 200; a GET receives the cached body; the headers sent are
  the cached ones, with \<^verbatim>\<open>Content-Length\<close> set to the cached length as on every hit;
  after reading the cached headers the handler makes the HEAD call, logs the failure and
  makes no other call, so nothing is written to either cache, and the registry is
  untouched.
\<close>

theorem revalidation_failure_serves_cache:
  assumes "rw st = new_writer"
    and "header_GetHeaders e (URL_Path r) = (cachedHeaders, False)"
    and "distinct (map fst cachedHeaders)"
    and "\<not> client_not_modified e r cachedHeaders lastModified useIfModifiedSince"
    and "useIfModifiedSince" and "shouldValidateWithOrigin (URL_Path r)"
    and "NewRequest_ok e (OriginServer e @ URL_Path r)"
    and "client_Do e (revalidation_request e r cachedHeaders lastModified) = None"
  shows "fst (handleCacheHit e r content contentLength lastModified useIfModifiedSince st)
           = Returned True \<and>
         response_status
           (handleCacheHit e r content contentLength lastModified useIfModifiedSince st)
           = Some 200 \<and>
         wbody (rw (snd (handleCacheHit e r content contentLength lastModified
                           useIfModifiedSince st)))
           = (if Method r = ''HEAD'' then [] else content) \<and>
         (\<forall>k. header_Values
                (sent_header (rw (snd (handleCacheHit e r content contentLength lastModified
                                         useIfModifiedSince st)))) k
              = (if k = ''Content-Length'' then [sprintf_d contentLength]
                 else header_Values cachedHeaders k)) \<and>
         trace (snd (handleCacheHit e r content contentLength lastModified
                       useIfModifiedSince st))
           = trace st @ [GetHeaders (URL_Path r),
                         OriginDo (revalidation_request e r cachedHeaders lastModified),
                         Log ''Error checking with upstream''] \<and>
         locks (snd (handleCacheHit e r content contentLength lastModified
                       useIfModifiedSince st)) = locks st"
proof -
  let ?q = "revalidation_request e r cachedHeaders lastModified"
  let ?st1 = "logf ''Error checking with upstream''
                (emit (OriginDo ?q) (emit (GetHeaders (URL_Path r)) st))"
  let ?st2 = "on_writer (\<lambda>w. w\<lparr>wheader := copy_header cachedHeaders (wheader w)\<rparr>) ?st1"
  let ?out = "handleCacheHit e r content contentLength lastModified useIfModifiedSince st"
  have run: "?out = serve r (Some content) contentLength ?st2"
    using assms(2,4) revalidate_transport_error [OF assms(5,6,7,8)]
    by (simp add: handleCacheHit_def Let_def)
  have rw2: "wheader (rw ?st2) = copy_header cachedHeaders []"
    "wrote (rw ?st2) = None" "wbody (rw ?st2) = []"
    using assms(1) by (simp_all add: on_writer_def logf_def emit_def new_writer_def)
  have vals: "\<And>k. header_Values (header_Set (copy_header cachedHeaders []) ''Content-Length''
                        (sprintf_d contentLength)) k
              = (if k = ''Content-Length'' then [sprintf_d contentLength]
                 else header_Values cachedHeaders k)"
    using header_Values_copy_header [OF assms(3), of "[]"]
    by (simp add: header_Values_Set) (simp add: header_Values_def)
  have c1: "fst ?out = Returned True"
    by (simp add: run serve_def Let_def)
  have c2: "response_status ?out = Some 200"
    by (simp only: run serve_status_200 [OF rw2(2)])
  have c3: "wbody (rw (snd ?out)) = (if Method r = ''HEAD'' then [] else content)"
    by (simp only: run serve_body [OF rw2(3)])
  have c4: "\<forall>k. header_Values (sent_header (rw (snd ?out))) k
              = (if k = ''Content-Length'' then [sprintf_d contentLength]
                 else header_Values cachedHeaders k)"
    by (simp only: run serve_sent_header [OF rw2(2)] rw2(1) vals) simp
  have c5: "trace (snd ?out)
            = trace st @ [GetHeaders (URL_Path r), OriginDo ?q,
                          Log ''Error checking with upstream'']"
    by (simp add: run serve_trace on_writer_def logf_def emit_def)
  have c6: "locks (snd ?out) = locks st"
    by (simp add: run serve_def Let_def on_writer_def logf_def emit_def)
  show ?thesis
    using c1 c2 c3 c4 c5 c6 by (intro conjI)
qed

theorem revalidation_failure_serves_cache_witness:
  "fst (handleCacheHit ex_env_headers (ex_request ''GET'' inrelease [])
          inrelease_body 14 1704067200 True initial_state) = Returned True \<and>
   response_status (handleCacheHit ex_env_headers (ex_request ''GET'' inrelease [])
          inrelease_body 14 1704067200 True initial_state) = Some 200 \<and>
   wbody (rw (snd (handleCacheHit ex_env_headers (ex_request ''GET'' inrelease [])
          inrelease_body 14 1704067200 True initial_state))) = inrelease_body \<and>
   header_Values (sent_header (rw (snd (handleCacheHit ex_env_headers
          (ex_request ''GET'' inrelease []) inrelease_body 14 1704067200 True
          initial_state)))) ''Content-Type'' = [''text/plain''] \<and>
   calls (trace (snd (handleCacheHit ex_env_headers (ex_request ''GET'' inrelease [])
          inrelease_body 14 1704067200 True initial_state)))
     = [GetHeaders inrelease,
        OriginDo \<lparr>o_method = ''HEAD'', o_url = ''http://origin/ubuntu/dists/jammy/InRelease'',
                  o_header = [(''If-Modified-Since'', [''Mon, 01 Jan 2024 00:00:00 GMT'']),
                              (''User-Agent'', [''Go-APT-Cache/1.0''])]\<rparr>]"
proof -
  let ?r = "ex_request ''GET'' inrelease []"
  let ?h = "[(''Content-Type'', [''text/plain'']), (''Last-Modified'', [jan1])]"
  have fresh: "rw initial_state = new_writer"
    by (simp add: initial_state_def)
  have hdrs: "header_GetHeaders ex_env_headers (URL_Path ?r) = (?h, False)"
    by (simp add: ex_env_headers_def)
  have dist: "distinct (map fst ?h)"
    by simp
  have nm: "\<not> client_not_modified ex_env_headers ?r ?h 1704067200 True"
    by (simp add: client_not_modified_def ex_request_def header_Get_def header_Values_def)
  have val: "shouldValidateWithOrigin (URL_Path ?r)"
    by (simp add: ex_request_def inrelease_def shouldValidateWithOrigin_def
        criticalPatterns_def strings_HasPrefix_def)
  have ok: "NewRequest_ok ex_env_headers (OriginServer ex_env_headers @ URL_Path ?r)"
    by (simp add: ex_env_headers_def ex_env_hit_def ex_env_def)
  have down: "client_Do ex_env_headers (revalidation_request ex_env_headers ?r ?h 1704067200)
                = None"
    by (simp add: ex_env_headers_def ex_env_hit_def ex_env_def)
  have req: "revalidation_request ex_env_headers ?r ?h 1704067200
             = \<lparr>o_method = ''HEAD'', o_url = ''http://origin/ubuntu/dists/jammy/InRelease'',
                o_header = [(''If-Modified-Since'', [''Mon, 01 Jan 2024 00:00:00 GMT'']),
                            (''User-Agent'', [''Go-APT-Cache/1.0''])]\<rparr>"
    by (simp add: revalidation_request_eq ex_env_headers_def ex_env_hit_def ex_env_def
        ex_request_def inrelease_def header_Get_def header_Values_def jan1_def)
  show ?thesis
    using revalidation_failure_serves_cache [OF fresh hdrs dist nm TrueI val ok down,
        of inrelease_body 14]
    by (simp add: req calls_def) (simp add: ex_request_def initial_state_def header_Values_def)
qed

section \<open>A refetch that fails\<close>

text \<open>
  C10 fails on the source. A GET hits the cache, the origin answers the revalidation HEAD
  with 200 and then does not answer the GET: \<^verbatim>\<open>fetchAndUpdateCache\<close> returns a nil
  stream, which \<^verbatim>\<open>handleCacheHit\<close> assigns to \<open>content\<close> and hands to \<^verbatim>\<open>io.Copy\<close>.
  The handler panics on the nil stream; no status and no body are written.
\<close>

theorem failed_refetch_reads_nil_stream:
  "fst (HandleCacheableRequest ex_env_refetch_fails (ex_request ''GET'' inrelease [])
          initial_state) = Panicked \<and>
   response_status (HandleCacheableRequest ex_env_refetch_fails
          (ex_request ''GET'' inrelease []) initial_state) = None \<and>
   wbody (rw (snd (HandleCacheableRequest ex_env_refetch_fails
          (ex_request ''GET'' inrelease []) initial_state))) = []"
  by code_simp

section \<open>A 304 without cached headers\<close>

text \<open>
  C3 fails on the source in the degraded state. A GET with an \<^verbatim>\<open>If-Modified-Since\<close> of
  1 January hits an entry stored on 1 January whose cached headers are missing:
  \<^verbatim>\<open>setBasicHeaders\<close> writes status 304 and returns to \<^verbatim>\<open>handleCacheHit\<close>, which goes
  on and copies the cached body to the response.
\<close>

theorem degraded_304_writes_body:
  "response_status (HandleCacheableRequest ex_env_hit
      (ex_request ''GET'' inrelease [(''If-Modified-Since'', [jan1])]) initial_state)
     = Some 304 \<and>
   wbody (rw (snd (HandleCacheableRequest ex_env_hit
      (ex_request ''GET'' inrelease [(''If-Modified-Since'', [jan1])]) initial_state)))
     = ''Origin: Ubuntu''"
  by code_simp

section \<open>The Content-Length of a response\<close>

lemma fetchAndUpdateCache_length:
  "fst (fetchAndUpdateCache e p u st) = Some b \<Longrightarrow>
   fst (snd (fetchAndUpdateCache e p u st)) = int (length b)"
  by (auto simp: fetchAndUpdateCache_def Let_def split: option.splits if_splits)

lemma revalidate_length:
  assumes "contentLength = int (length content)"
    and "fst (revalidate e r content contentLength h lm u st) = Some b"
  shows "fst (snd (revalidate e r content contentLength h lm u st)) = int (length b)"
  using assms
  by (auto simp: revalidate_def Let_def case_prod_beta fetchAndUpdateCache_length
      split: option.splits if_splits)

lemma setBasicHeaders_wbody: "wbody (setBasicHeaders e r h lm u w) = wbody w"
  by (simp add: setBasicHeaders_def Let_def w_Set_def WriteHeader_def split: option.splits)

lemma setBasicHeaders_wrote:
  "wrote w = None \<Longrightarrow>
   wrote (setBasicHeaders e r h lm u w) = None \<or>
   written_status (setBasicHeaders e r h lm u w) = Some 304"
  by (simp add: setBasicHeaders_def Let_def w_Set_def WriteHeader_def written_status_def
      split: option.splits)

lemma serve_nil_get:
  "Method r \<noteq> ''HEAD'' \<Longrightarrow> wrote (rw st) = None \<Longrightarrow>
   response_status (serve r None n st) = None"
  by (simp add: serve_def Let_def on_writer_def w_Set_def response_status_def)

text \<open>
  On the cache-hit path line 198 always sets \<^verbatim>\<open>Content-Length\<close>: a GET that is answered
  200 there carries a \<^verbatim>\<open>Content-Length\<close> equal to the number of body bytes written,
  whatever the cached headers or a refetched origin response declare, when the length
  the blob cache reports is that of the body it returns.
\<close>

lemma hit_content_length_is_body_length:
  assumes "rw st = new_writer"
    and "Method r \<noteq> ''HEAD''"
    and "contentLength = int (length content)"
    and "response_status (handleCacheHit e r content contentLength lastModified u st)
           = Some 200"
  shows "header_Get
           (sent_header (rw (snd (handleCacheHit e r content contentLength lastModified u st))))
           ''Content-Length''
         = sprintf_d (int (length
             (wbody (rw (snd (handleCacheHit e r content contentLength lastModified u st))))))"
proof (cases "header_GetHeaders e (URL_Path r)")
  case (Pair cachedHeaders headerErr)
  let ?out = "handleCacheHit e r content contentLength lastModified u st"
  let ?st0 = "emit (GetHeaders (URL_Path r)) st"
  have fresh: "wrote (rw ?st0) = None" "wbody (rw ?st0) = []"
    using assms(1) by (simp_all add: emit_def new_writer_def)
  have not304: "response_status ?out \<noteq> Some 304"
    using assms(4) by simp
  show ?thesis
  proof (cases headerErr)
    case True
    let ?stb = "on_writer (setBasicHeaders e r cachedHeaders lastModified u) ?st0"
    have run: "?out = serve r (Some content) contentLength ?stb"
      using Pair True by (simp add: handleCacheHit_def)
    have "written_status (rw ?stb) \<noteq> Some 304"
      using not304 by (simp only: run response_status_304 serve_304) simp
    then have w: "wrote (rw ?stb) = None"
      using setBasicHeaders_wrote [OF fresh(1), of e r cachedHeaders lastModified u]
      by (auto simp: on_writer_def)
    have b: "wbody (rw ?stb) = []"
      using fresh(2) by (simp add: on_writer_def setBasicHeaders_wbody)
    have hd: "header_Get (sent_header (rw (snd ?out))) ''Content-Length''
              = sprintf_d contentLength"
      by (simp only: run serve_sent_header [OF w] header_Get_Set)
    have bd: "wbody (rw (snd ?out)) = content"
      by (simp only: run serve_body [OF b]) (simp add: assms(2))
    show ?thesis
      unfolding hd bd by (simp only: assms(3))
  next
    case False
    show ?thesis
    proof (cases "client_not_modified e r cachedHeaders lastModified u")
      case True
      have "?out = (Returned True, on_writer (WriteHeader 304) ?st0)"
        using Pair False True by (simp add: handleCacheHit_def)
      then have "response_status ?out = Some 304"
        using fresh(1) by (simp add: response_status_def on_writer_def WriteHeader_def)
      then show ?thesis using not304 by simp
    next
      case nm: False
      let ?rv = "revalidate e r content contentLength cachedHeaders lastModified u ?st0"
      let ?st2 = "on_writer (\<lambda>w. w\<lparr>wheader := copy_header (fst (snd (snd ?rv))) (wheader w)\<rparr>)
                    (snd (snd (snd (snd ?rv))))"
      let ?sv = "serve r (fst ?rv) (fst (snd ?rv)) ?st2"
      have w: "wrote (rw ?st2) = None" and b: "wbody (rw ?st2) = []"
        using fresh by (simp_all add: on_writer_def revalidate_rw)
      have run: "fst ?out = fst ?sv" "rw (snd ?out) = rw (snd ?sv)"
        using Pair False nm by (simp_all add: handleCacheHit_def case_prod_beta Let_def)
      have st: "response_status ?out = response_status ?sv"
        by (simp only: response_status_def run)
      show ?thesis
      proof (cases "fst ?rv")
        case None
        then have "response_status ?sv = None"
          using serve_nil_get [OF assms(2) w] by simp
        then show ?thesis using assms(4) st by simp
      next
        case (Some body)
        have len: "fst (snd ?rv) = int (length body)"
          using revalidate_length [OF assms(3) Some] .
        have hd: "header_Get (sent_header (rw (snd ?out))) ''Content-Length''
                  = sprintf_d (int (length body))"
          by (simp only: run len serve_sent_header [OF w] header_Get_Set)
        have bd: "wbody (rw (snd ?out)) = body"
          by (simp only: run Some serve_body [OF b]) (simp add: assms(2))
        show ?thesis
          unfolding hd bd by (rule refl)
      qed
    qed
  qed
qed


section \<open>A declared length that disagrees with the bytes received\<close>









lemma wrote_w_Set: "wrote (w_Set k v w) = wrote w"
  by (simp add: w_Set_def)





















end
